theory Spec2Isabelle
  imports Main
begin

section \<open>The RAG evaluation script (scripts/evaluate-rag.py)\<close>

text \<open>
  The script loads a JSON file, builds a columnar dataset from four of its keys, hands the
  dataset to the evaluation library together with a fixed list of metrics, writes the
  result to a second JSON file and prints a summary.

  The script is embedded function by function. Its effects are explicit:
  \<^item> every function returns the list of events it caused (console lines, calls to the
    table library and to the evaluation library, file writes), in order;
  \<^item> an exception is the \<open>Inl\<close> branch of a sum;
  \<^item> the file system is a value that \<open>save_results\<close> and \<open>main\<close> return updated.

  What the script imports from other packages and only calls (\<open>json\<close>, \<open>datasets\<close>,
  \<open>ragas\<close>, \<open>pandas\<close>) is a field of the environment record \<open>env\<close>: the theorems hold
  for every behaviour of these collaborators, and where a theorem needs one of them to
  behave in some way, it says so in a hypothesis.
\<close>

subsection \<open>Exceptions\<close>

text \<open>
  The values of this type stand for instances of Python's \<open>Exception\<close> and its subclasses,
  so \<open>except Exception\<close> catches every one of them, and \<open>except FileNotFoundError\<close> catches
  those built with the first constructor. \<open>ArrowInvalid i name n m\<close> is the table library's
  "Column i named name expected length n but got length m"; it occurs below only as the
  answer of the library in a concrete run.
\<close>

datatype pyexn =
    is_FileNotFoundError: FileNotFoundError string
  | PermissionError string
  | JSONDecodeError string
  | ArrowInvalid nat string nat nat
  | AttributeError string
  | TypeError string
  | KeyError "string list"
  | RuntimeError string

subsection \<open>Data\<close>

text \<open>
  \<open>data\<close> is the dictionary read from the input file: keys are strings, the values used
  are sequences of cells of type \<open>'c\<close>. A dataset is the ordered list of its named columns,
  and \<open>len\<close> is its number of rows. The cells are opaque: the script never looks inside
  one.
\<close>

type_synonym 'c raw_data = "string \<rightharpoonup> 'c list"

type_synonym 'c dataset = "(string \<times> 'c list) list"

definition len :: "'c dataset \<Rightarrow> nat" where
  "len dataset = (case dataset of [] \<Rightarrow> 0 | (name, col) # rest \<Rightarrow> length col)"

datatype cell = Text string | Passages "string list"

datatype metric =
    faithfulness
  | answer_relevancy
  | context_precision
  | context_recall
  | context_entity_recall
  | answer_similarity
  | answer_correctness

text \<open>A data frame is the ordered list of its named columns, with values of type \<open>'v\<close>.\<close>

type_synonym 'v dataframe = "(string \<times> 'v list) list"

subsection \<open>Events\<close>

text \<open>
  One constructor of \<open>line\<close> for each message the script prints; consecutive \<open>print\<close>
  calls of fixed text (a banner, the usage help) are one line.
\<close>

datatype 'v line =
    Banner
  | Loading string
  | FileNotFoundMsg string
  | UsageHelp
  | Preparing
  | Prepared nat
  | Running
  | EvalError pyexn
  | Saving string
  | Saved string
  | SummaryHeader
  | MetricsHeader
  | MetricLine string 'v 'v
  | PerSampleHeader
  | PerSampleTable "'v dataframe"
  | Rule

datatype ('c, 'v) event =
    is_Print: Print "'v line"
  | is_Call_from_dict: Call_from_dict "'c dataset"
  | is_Call_evaluate: Call_evaluate "'c dataset" "metric list" bool
  | is_Open_w: Open_w string
  | is_Wrote: Wrote string string

subsection \<open>The file system\<close>

text \<open>
  \<open>files\<close> maps a path to the text of the file there; \<open>write_fault\<close> gives, for a path that
  cannot be opened for writing (missing directory, no permission), the exception that
  \<open>open(path, 'w')\<close> raises.
\<close>

record filesystem =
  files :: "string \<rightharpoonup> string"
  write_fault :: "string \<rightharpoonup> pyexn"

definition open_r :: "filesystem \<Rightarrow> string \<Rightarrow> pyexn + string" where
  "open_r fs path =
     (case files fs path of
        None \<Rightarrow> Inl (FileNotFoundError path)
      | Some text \<Rightarrow> Inr text)"

text \<open>Opening for writing truncates the file.\<close>

definition open_w :: "filesystem \<Rightarrow> string \<Rightarrow> pyexn + filesystem" where
  "open_w fs path =
     (case write_fault fs path of
        Some e \<Rightarrow> Inl e
      | None \<Rightarrow> Inr (fs\<lparr>files := (files fs)(path \<mapsto> [])\<rparr>))"

definition write_text :: "filesystem \<Rightarrow> string \<Rightarrow> string \<Rightarrow> filesystem" where
  "write_text fs path text =
     fs\<lparr>files := (files fs)(path \<mapsto>
        (case files fs path of None \<Rightarrow> text | Some old \<Rightarrow> old @ text))\<rparr>"

subsection \<open>The collaborators\<close>

text \<open>
  \<^item> \<open>json_load\<close>: \<open>json.load\<close> on the text of a file;
  \<^item> \<open>from_dict\<close>: \<open>Dataset.from_dict\<close> on the named columns, in the order of the
    dictionary, returning a dataset or raising;
  \<^item> \<open>evaluate\<close>: \<open>ragas.evaluate(dataset, metrics, raise_exceptions)\<close>, returning a result
    object of type \<open>'r\<close> or raising;
  \<^item> \<open>entries\<close>: the metrics that have an entry in the result object, which is a mapping
    from metrics to their scores;
  \<^item> \<open>to_dict\<close>, \<open>to_pandas\<close>: the two methods of the result object the script calls;
  \<^item> \<open>json_dump\<close>: \<open>json.dump\<close>, which writes text to the open file and may raise after
    part of it is written: the text written, and the exception if any;
  \<^item> \<open>series_mean\<close>, \<open>series_std\<close>, \<open>round4\<close>: \<open>Series.mean()\<close>, \<open>Series.std()\<close> and
    \<open>round(4)\<close> of the data frame library.
\<close>

record ('c, 'r, 'j, 'v) env =
  json_load :: "string \<Rightarrow> pyexn + 'c raw_data"
  from_dict :: "(string \<times> 'c list) list \<Rightarrow> pyexn + 'c dataset"
  evaluate :: "'c dataset \<Rightarrow> metric list \<Rightarrow> bool \<Rightarrow> pyexn + 'r"
  entries :: "'r \<Rightarrow> metric list"
  to_dict :: "'r \<Rightarrow> pyexn + 'j"
  json_dump :: "'j \<Rightarrow> string \<times> pyexn option"
  to_pandas :: "'r \<Rightarrow> pyexn + 'v dataframe"
  series_mean :: "'v list \<Rightarrow> 'v"
  series_std :: "'v list \<Rightarrow> 'v"
  round4 :: "'v \<Rightarrow> 'v"

subsection \<open>load_evaluation_data\<close>

text \<open>The body of the \<open>try\<close>: open the file, parse it.\<close>

definition load_body :: "('c, 'r, 'j, 'v) env \<Rightarrow> filesystem \<Rightarrow> string \<Rightarrow> pyexn + 'c raw_data" where
  "load_body env fs file_path =
     (case open_r fs file_path of
        Inl e \<Rightarrow> Inl e
      | Inr text \<Rightarrow> json_load env text)"

text \<open>\<open>Inr None\<close> is the return value \<open>None\<close>.\<close>

definition load_evaluation_data ::
  "('c, 'r, 'j, 'v) env \<Rightarrow> filesystem \<Rightarrow> string \<Rightarrow>
     ('c, 'v) event list \<times> (pyexn + 'c raw_data option)" where
  "load_evaluation_data env fs file_path =
     (case load_body env fs file_path of
        Inr data \<Rightarrow> ([Print (Loading file_path)], Inr (Some data))
      | Inl e \<Rightarrow>
          (if is_FileNotFoundError e
           then ([Print (Loading file_path), Print (FileNotFoundMsg file_path)], Inr None)
           else ([Print (Loading file_path)], Inl e)))"

subsection \<open>prepare_dataset\<close>

text \<open>\<open>data.get(key, [])\<close>\<close>

definition get_default :: "'c raw_data \<Rightarrow> string \<Rightarrow> 'c list" where
  "get_default data key = (case data key of None \<Rightarrow> [] | Some col \<Rightarrow> col)"

definition columns :: "'c raw_data \<Rightarrow> (string \<times> 'c list) list" where
  "columns data =
     [(''question'', get_default data ''questions''),
      (''answer'', get_default data ''answers''),
      (''contexts'', get_default data ''contexts''),
      (''ground_truth'', get_default data ''ground_truths'')]"

definition prepare_dataset ::
  "('c, 'r, 'j, 'v) env \<Rightarrow> 'c raw_data \<Rightarrow> ('c, 'v) event list \<times> (pyexn + 'c dataset)" where
  "prepare_dataset env data =
     (case from_dict env (columns data) of
        Inl e \<Rightarrow> ([Print Preparing, Call_from_dict (columns data)], Inl e)
      | Inr dataset \<Rightarrow>
          ([Print Preparing, Call_from_dict (columns data), Print (Prepared (len dataset))],
           Inr dataset))"

subsection \<open>run_evaluation\<close>

definition metrics :: "metric list" where
  "metrics =
     [faithfulness, answer_relevancy, context_precision, context_recall,
      context_entity_recall, answer_similarity, answer_correctness]"

text \<open>The result \<open>None\<close> of the \<open>except\<close> branch is \<open>None\<close>; the function never raises.\<close>

definition run_evaluation ::
  "('c, 'r, 'j, 'v) env \<Rightarrow> 'c dataset \<Rightarrow> ('c, 'v) event list \<times> 'r option" where
  "run_evaluation env dataset =
     (case evaluate env dataset metrics False of
        Inr results \<Rightarrow> ([Print Running, Call_evaluate dataset metrics False], Some results)
      | Inl e \<Rightarrow>
          ([Print Running, Call_evaluate dataset metrics False, Print (EvalError e)], None))"

subsection \<open>save_results\<close>

definition save_results ::
  "('c, 'r, 'j, 'v) env \<Rightarrow> filesystem \<Rightarrow> 'r \<Rightarrow> string \<Rightarrow>
     ('c, 'v) event list \<times> (pyexn + unit) \<times> filesystem" where
  "save_results env fs results output_file =
     (case to_dict env results of
        Inl e \<Rightarrow> ([Print (Saving output_file)], Inl e, fs)
      | Inr results_dict \<Rightarrow>
          (case open_w fs output_file of
             Inl e \<Rightarrow> ([Print (Saving output_file)], Inl e, fs)
           | Inr fs1 \<Rightarrow>
               (case json_dump env results_dict of
                  (text, Some e) \<Rightarrow>
                    ([Print (Saving output_file), Open_w output_file, Wrote output_file text],
                     Inl e, write_text fs1 output_file text)
                | (text, None) \<Rightarrow>
                    ([Print (Saving output_file), Open_w output_file, Wrote output_file text,
                      Print (Saved output_file)],
                     Inr (), write_text fs1 output_file text))))"

subsection \<open>print_summary\<close>

definition metrics_cols :: "string list" where
  "metrics_cols =
     [''faithfulness'', ''answer_relevancy'', ''context_precision'',
      ''context_recall'', ''answer_correctness'']"

text \<open>The loop over \<open>metrics_cols\<close>: a line for each column the frame has.\<close>

fun metric_lines ::
  "('c, 'r, 'j, 'v) env \<Rightarrow> 'v dataframe \<Rightarrow> string list \<Rightarrow> ('c, 'v) event list" where
  "metric_lines env df [] = []"
| "metric_lines env df (col # cols) =
     (case map_of df col of
        None \<Rightarrow> metric_lines env df cols
      | Some series \<Rightarrow>
          Print (MetricLine col (series_mean env series) (series_std env series))
            # metric_lines env df cols)"

text \<open>\<open>df[cols]\<close>: the sub-frame of the named columns, a \<open>KeyError\<close> naming the missing ones.\<close>

definition select_cols :: "'v dataframe \<Rightarrow> string list \<Rightarrow> pyexn + 'v dataframe" where
  "select_cols df cols =
     (if filter (\<lambda>col. map_of df col = None) cols \<noteq> []
      then Inl (KeyError (filter (\<lambda>col. map_of df col = None) cols))
      else Inr (map (\<lambda>col. (col, case map_of df col of None \<Rightarrow> [] | Some series \<Rightarrow> series)) cols))"

definition print_summary ::
  "('c, 'r, 'j, 'v) env \<Rightarrow> 'r \<Rightarrow> ('c, 'v) event list \<times> (pyexn + unit)" where
  "print_summary env results =
     (case to_pandas env results of
        Inl e \<Rightarrow> ([Print SummaryHeader], Inl e)
      | Inr df \<Rightarrow>
          (case select_cols df metrics_cols of
             Inl e \<Rightarrow>
               ([Print SummaryHeader, Print MetricsHeader] @ metric_lines env df metrics_cols
                  @ [Print Rule, Print PerSampleHeader],
                Inl e)
           | Inr sub \<Rightarrow>
               ([Print SummaryHeader, Print MetricsHeader] @ metric_lines env df metrics_cols
                  @ [Print Rule, Print PerSampleHeader,
                     Print (PerSampleTable (map (\<lambda>(col, series). (col, map (round4 env) series)) sub)),
                     Print Rule],
                Inr ())))"

subsection \<open>main\<close>

definition input_file :: string where
  "input_file = ''outputs/evaluation_data.json''"

definition output_file :: string where
  "output_file = ''outputs/evaluation_results.json''"

definition main ::
  "('c, 'r, 'j, 'v) env \<Rightarrow> filesystem \<Rightarrow>
     ('c, 'v) event list \<times> (pyexn + unit) \<times> filesystem" where
  "main env fs =
     (case load_evaluation_data env fs input_file of
        (t1, Inl e) \<Rightarrow> (Print Banner # t1, Inl e, fs)
      | (t1, Inr None) \<Rightarrow> (Print Banner # t1 @ [Print UsageHelp], Inr (), fs)
      | (t1, Inr (Some data)) \<Rightarrow>
          (case prepare_dataset env data of
             (t2, Inl e) \<Rightarrow> (Print Banner # t1 @ t2, Inl e, fs)
           | (t2, Inr dataset) \<Rightarrow>
               (case run_evaluation env dataset of
                  (t3, None) \<Rightarrow> (Print Banner # t1 @ t2 @ t3, Inr (), fs)
                | (t3, Some results) \<Rightarrow>
                    (case save_results env fs results output_file of
                       (t4, Inl e, fs') \<Rightarrow> (Print Banner # t1 @ t2 @ t3 @ t4, Inl e, fs')
                     | (t4, Inr u, fs') \<Rightarrow>
                         (case print_summary env results of
                            (t5, r) \<Rightarrow> (Print Banner # t1 @ t2 @ t3 @ t4 @ t5, r, fs'))))))"


subsection \<open>A concrete run\<close>

text \<open>
  A small input and stand-ins for the collaborators, on which the theorems below are
  instantiated. The result object is the list of the metrics with their scores, and its
  frame has one column for each, under the name of the metric. What the table library
  answers (\<open>built\<close>) and how the evaluation answers a list of metrics (\<open>ev\<close>) are given
  with each run.
\<close>

definition example_data :: "cell raw_data" where
  "example_data =
     [''questions'' \<mapsto> [Text ''q1'', Text ''q2''],
      ''answers'' \<mapsto> [Text ''a1'', Text ''a2''],
      ''contexts'' \<mapsto> [Passages [''c1''], Passages []],
      ''ground_truths'' \<mapsto> [Text ''g1'', Text ''g2'']]"

fun metric_name :: "metric \<Rightarrow> string" where
  "metric_name faithfulness = ''faithfulness''"
| "metric_name answer_relevancy = ''answer_relevancy''"
| "metric_name context_precision = ''context_precision''"
| "metric_name context_recall = ''context_recall''"
| "metric_name context_entity_recall = ''context_entity_recall''"
| "metric_name answer_similarity = ''answer_similarity''"
| "metric_name answer_correctness = ''answer_correctness''"

type_synonym example_scores = "(metric \<times> int list) list"

definition example_env ::
  "cell raw_data \<Rightarrow> (pyexn + cell dataset) \<Rightarrow> (metric list \<Rightarrow> pyexn + example_scores) \<Rightarrow>
     (cell, example_scores, example_scores, int) env" where
  "example_env data built ev =
     \<lparr>json_load = (\<lambda>text. Inr data),
      from_dict = (\<lambda>mapping. built),
      evaluate = (\<lambda>dataset ms raise_exceptions. ev ms),
      entries = map fst,
      to_dict = (\<lambda>results. Inr results),
      json_dump = (\<lambda>results_dict. (''report'', None)),
      to_pandas = (\<lambda>results. Inr (map (\<lambda>(m, series). (metric_name m, series)) results)),
      series_mean = (\<lambda>series. 0),
      series_std = (\<lambda>series. 0),
      round4 = (\<lambda>v. v)\<rparr>"

text \<open>An evaluation that scores every metric it is asked for, and one that raises.\<close>

definition scores_all :: "metric list \<Rightarrow> pyexn + example_scores" where
  "scores_all ms = Inr (map (\<lambda>m. (m, [1, 0])) ms)"

definition raises :: "pyexn \<Rightarrow> metric list \<Rightarrow> pyexn + example_scores" where
  "raises e ms = Inl e"

definition example_results :: example_scores where
  "example_results = map (\<lambda>m. (m, [1, 0])) metrics"

definition example_fs :: filesystem where
  "example_fs = \<lparr>files = [input_file \<mapsto> ''data''], write_fault = Map.empty\<rparr>"

definition empty_fs :: filesystem where
  "empty_fs = \<lparr>files = Map.empty, write_fault = Map.empty\<rparr>"

definition readonly_fs :: filesystem where
  "readonly_fs =
     \<lparr>files = [input_file \<mapsto> ''data''],
      write_fault = [output_file \<mapsto> PermissionError output_file]\<rparr>"

section \<open>Properties\<close>

subsection \<open>Auxiliary facts\<close>

paragraph \<open>The steps of the script, one at a time\<close>

lemma input_neq_output: "input_file \<noteq> output_file"
  by (simp add: input_file_def output_file_def)

lemma load_body_cong:
  "files fs2 p = files fs p \<Longrightarrow> load_body env fs2 p = load_body env fs p"
  by (simp add: load_body_def open_r_def)

lemma load_cong:
  assumes "files fs2 p = files fs p"
  shows "load_evaluation_data env fs2 p = load_evaluation_data env fs p"
  unfolding load_evaluation_data_def load_body_cong [OF assms] ..

lemma load_present:
  assumes "files fs p = Some body" and "json_load env body = Inr data"
  shows "load_evaluation_data env fs p = ([Print (Loading p)], Inr (Some data))"
  using assms by (simp add: load_evaluation_data_def load_body_def open_r_def)

lemma load_absent:
  assumes "files fs p = None"
  shows "load_evaluation_data env fs p =
           ([Print (Loading p), Print (FileNotFoundMsg p)], Inr None)"
  using assms by (simp add: load_evaluation_data_def load_body_def open_r_def)

lemma get_default_absent:
  "data key = None \<Longrightarrow> get_default (data(key \<mapsto> [])) k = get_default data k"
  by (simp add: get_default_def)

lemma prepare_built:
  assumes "from_dict env (columns data) = Inr dataset"
  shows "prepare_dataset env data =
           ([Print Preparing, Call_from_dict (columns data), Print (Prepared (len dataset))],
            Inr dataset)"
  using assms by (simp add: prepare_dataset_def)

lemma prepare_rejected:
  assumes "from_dict env (columns data) = Inl e"
  shows "prepare_dataset env data = ([Print Preparing, Call_from_dict (columns data)], Inl e)"
  using assms by (simp add: prepare_dataset_def)

text \<open>A key that is missing is read as the empty sequence, without an error at the lookup.\<close>

lemma missing_key_read_as_empty:
  assumes "data key = None"
  shows "columns (data(key \<mapsto> [])) = columns data"
  unfolding columns_def get_default_absent [of data key, OF assms] ..

lemma run_returned:
  assumes "evaluate env dataset metrics False = Inr results"
  shows "run_evaluation env dataset =
           ([Print Running, Call_evaluate dataset metrics False], Some results)"
  using assms by (simp add: run_evaluation_def)

lemma run_raised:
  assumes "evaluate env dataset metrics False = Inl e"
  shows "run_evaluation env dataset =
           ([Print Running, Call_evaluate dataset metrics False, Print (EvalError e)], None)"
  using assms by (simp add: run_evaluation_def)


lemma write_text_after_open_w:
  "open_w fs p = Inr fs1 \<Longrightarrow>
     write_text fs1 p out = fs\<lparr>files := (files fs)(p \<mapsto> out)\<rparr>"
  by (auto simp: open_w_def write_text_def split: option.splits)

lemma open_w_after_write:
  "open_w fs p = Inr fs1 \<Longrightarrow>
     open_w (fs\<lparr>files := (files fs)(p \<mapsto> out)\<rparr>) p = Inr fs1"
  by (auto simp: open_w_def split: option.splits)

lemma save_results_open_fails:
  assumes "to_dict env results = Inr results_dict"
    and "write_fault fs p = Some e"
  shows "save_results env fs results p = ([Print (Saving p)], Inl e, fs)"
  using assms by (simp add: save_results_def open_w_def)

lemma save_results_dump:
  assumes "to_dict env results = Inr results_dict"
    and "write_fault fs p = None"
    and "json_dump env results_dict = (out, ex)"
  shows "save_results env fs results p =
           ([Print (Saving p), Open_w p, Wrote p out]
              @ (case ex of None \<Rightarrow> [Print (Saved p)] | Some e \<Rightarrow> []),
            (case ex of None \<Rightarrow> Inr () | Some e \<Rightarrow> Inl e),
            fs\<lparr>files := (files fs)(p \<mapsto> out)\<rparr>)"
  using assms by (cases ex) (simp_all add: save_results_def open_w_def write_text_def)

text \<open>A save leaves every file but the output file as it was.\<close>

lemma save_results_other_files:
  assumes "q \<noteq> p"
  shows "files (snd (snd (save_results env fs results p))) q = files fs q"
proof (cases "to_dict env results")
  case (Inl e)
  then show ?thesis by (simp add: save_results_def)
next
  case d: (Inr results_dict)
  show ?thesis
  proof (cases "open_w fs p")
    case (Inl e)
    with d show ?thesis by (simp add: save_results_def)
  next
    case (Inr fs1)
    obtain out ex where j: "json_dump env results_dict = (out, ex)"
      by (cases "json_dump env results_dict") auto
    have "snd (snd (save_results env fs results p)) = write_text fs1 p out"
      using d Inr j by (cases ex) (simp_all add: save_results_def)
    also have "\<dots> = fs\<lparr>files := (files fs)(p \<mapsto> out)\<rparr>"
      by (rule write_text_after_open_w [OF Inr])
    finally show ?thesis using assms by simp
  qed
qed

text \<open>Saving the same results again, on the file system the first save left, changes nothing.\<close>

lemma save_results_again:
  fixes env :: "('c, 'r, 'j, 'v) env"
  shows "save_results env (snd (snd (save_results env fs results p))) results p
       = (save_results env fs results p :: ('c, 'v) event list \<times> _)"
proof (cases "to_dict env results")
  case (Inl e)
  then show ?thesis by (simp add: save_results_def)
next
  case d: (Inr results_dict)
  show ?thesis
  proof (cases "open_w fs p")
    case (Inl e)
    with d show ?thesis by (simp add: save_results_def)
  next
    case (Inr fs1)
    obtain out ex where j: "json_dump env results_dict = (out, ex)"
      by (cases "json_dump env results_dict") auto
    have w: "write_text fs1 p out = fs\<lparr>files := (files fs)(p \<mapsto> out)\<rparr>"
      by (rule write_text_after_open_w [OF Inr])
    have o: "open_w (fs\<lparr>files := (files fs)(p \<mapsto> out)\<rparr>) p = Inr fs1"
      by (rule open_w_after_write [OF Inr])
    show ?thesis
      using d Inr j o by (cases ex) (simp_all add: save_results_def w)
  qed
qed

paragraph \<open>The concrete run\<close>

lemma example_fs_input: "files example_fs input_file = Some ''data''"
  by (simp add: example_fs_def)

lemma example_fs_no_fault: "write_fault example_fs output_file = None"
  by (simp add: example_fs_def)

lemma readonly_fs_input: "files readonly_fs input_file = Some ''data''"
  by (simp add: readonly_fs_def)

lemma readonly_fs_fault:
  "write_fault readonly_fs output_file = Some (PermissionError output_file)"
  by (simp add: readonly_fs_def)

lemma example_json_load: "json_load (example_env data built ev) body = Inr data"
  by (simp add: example_env_def)

lemma example_from_dict: "from_dict (example_env data built ev) mapping = built"
  by (simp add: example_env_def)

lemma example_evaluate: "evaluate (example_env data built ev) dataset ms flag = ev ms"
  by (simp add: example_env_def)


lemma example_to_dict: "to_dict (example_env data built ev) results = Inr results"
  by (simp add: example_env_def)

lemma example_json_dump:
  "json_dump (example_env data built ev) results_dict = (''report'', None)"
  by (simp add: example_env_def)



lemma scores_all_metrics: "scores_all metrics = Inr example_results"
  by (simp add: scores_all_def example_results_def)

lemma example_columns:
  "columns example_data =
     [(''question'', [Text ''q1'', Text ''q2'']),
      (''answer'', [Text ''a1'', Text ''a2'']),
      (''contexts'', [Passages [''c1''], Passages []]),
      (''ground_truth'', [Text ''g1'', Text ''g2''])]"
  by (simp add: columns_def get_default_def example_data_def)

lemma example_len: "len (columns example_data) = 2"
  by (simp add: len_def example_columns)

subsection \<open>Columns of unequal length, and no samples\<close>




subsection \<open>What the runner returns\<close>




subsection \<open>Missing keys\<close>

text \<open>
  C6 does not hold of the script. A key that is missing is read as the empty sequence, as
  the claim says, but the empty column then stands beside the columns of the samples:
  with two samples and no \<open>ground_truths\<close> key, the table library is handed a fourth
  column of length 0, it rejects the columns, and the run ends with that exception
  before the evaluation is called. No metric reports anything.
\<close>

theorem missing_ground_truths_aborts:
  "main (example_env (example_data(''ground_truths'' := None))
           (Inl (ArrowInvalid 3 ''ground_truth'' 2 0)) scores_all) example_fs =
     ([Print Banner, Print (Loading input_file), Print Preparing,
       Call_from_dict
         [(''question'', [Text ''q1'', Text ''q2'']),
          (''answer'', [Text ''a1'', Text ''a2'']),
          (''contexts'', [Passages [''c1''], Passages []]),
          (''ground_truth'', [])]],
      Inl (ArrowInvalid 3 ''ground_truth'' 2 0), example_fs)"
proof -
  have c: "columns (example_data(''ground_truths'' := None)) =
         [(''question'', [Text ''q1'', Text ''q2'']),
          (''answer'', [Text ''a1'', Text ''a2'']),
          (''contexts'', [Passages [''c1''], Passages []]),
          (''ground_truth'', [])]"
    by (simp add: columns_def get_default_def example_data_def)
  show ?thesis
    by (simp add: main_def load_present [OF example_fs_input example_json_load]
          prepare_rejected [OF example_from_dict] c)
qed


subsection \<open>Running the pipeline again\<close>

text \<open>
  C7. A second run of \<open>main\<close>, started on the file system the first run left and with the
  same (deterministic) collaborators, gives what the first run gave: the same events,
  console lines and written text included, the same outcome and the same file system.
  The first run writes only the output file, which \<open>main\<close> never reads, and no other state
  is carried from one run to the next.
\<close>

theorem main_twice_same_report:
  fixes env :: "('c, 'r, 'j, 'v) env"
  shows "main env (snd (snd (main env fs))) = main env fs"
proof -
  obtain t1 r1 where l: "load_evaluation_data env fs input_file = (t1, r1)"
    by (cases "load_evaluation_data env fs input_file") auto
  show ?thesis
  proof (cases r1)
    case (Inl e)
    with l show ?thesis by (simp add: main_def)
  next
    case (Inr od)
    show ?thesis
    proof (cases od)
      case None
      with l Inr show ?thesis by (simp add: main_def)
    next
      case (Some data)
      obtain t2 r2 where p: "prepare_dataset env data = (t2, r2)"
        by (cases "prepare_dataset env data") auto
      show ?thesis
      proof (cases r2)
        case (Inl e)
        with l Inr Some p show ?thesis by (simp add: main_def)
      next
        case ds: (Inr dataset)
        obtain t3 r3 where e: "run_evaluation env dataset = (t3, r3)"
          by (cases "run_evaluation env dataset") auto
        show ?thesis
        proof (cases r3)
          case None
          with l Inr Some p ds e show ?thesis by (simp add: main_def)
        next
          case res: (Some results)
          obtain t4 r4 fs' where s: "save_results env fs results output_file = (t4, r4, fs')"
            by (cases "save_results env fs results output_file") auto
          have again: "save_results env fs' results output_file = (t4, r4, fs')"
            using save_results_again [of env fs results output_file] s by simp
          have "files fs' input_file = files fs input_file"
            using save_results_other_files [OF input_neq_output, of env fs results] s by simp
          then have l': "load_evaluation_data env fs' input_file = (t1, r1)"
            using load_cong [of fs' input_file fs env] l by simp
          obtain t5 r5 where q: "print_summary env results = (t5 :: ('c, 'v) event list, r5)"
            by (cases "print_summary env results :: ('c, 'v) event list \<times> _") auto
          have m: "main env fs =
                     (case r4 of Inl e \<Rightarrow> (Print Banner # t1 @ t2 @ t3 @ t4, Inl e, fs')
                      | Inr u \<Rightarrow> (Print Banner # t1 @ t2 @ t3 @ t4 @ t5, r5, fs'))"
            using l Inr Some p ds e res s q
            by (cases r4) (simp_all add: main_def)
          have m': "main env fs' =
                     (case r4 of Inl e \<Rightarrow> (Print Banner # t1 @ t2 @ t3 @ t4, Inl e, fs')
                      | Inr u \<Rightarrow> (Print Banner # t1 @ t2 @ t3 @ t4 @ t5, r5, fs'))"
            using l' Inr Some p ds e res again q
            by (cases r4) (simp_all add: main_def)
          have "snd (snd (main env fs)) = fs'"
            by (cases r4) (simp_all add: m)
          then show ?thesis
            by (simp add: m m')
        qed
      qed
    qed
  qed
qed

subsection \<open>A failing write\<close>

text \<open>
  C8. When writing the output file fails, be it that the file cannot be opened for
  writing or that \<open>json.dump\<close> raises after the file is open, \<open>save_results\<close> ends with
  that exception as it is, and so does \<open>main\<close>, which has no handler around the call.
  The results were computed before: the events of the run are those up to the evaluation
  call, followed by those of the save. The failure does not touch the results object:
  \<open>save_results\<close> on the same results, where the file can be opened, writes the text that
  \<open>json.dump\<close> produces for them.
\<close>

theorem write_failure_propagates:
  fixes env :: "('c, 'r, 'j, 'v) env"
  assumes "files fs input_file = Some body"
    and "json_load env body = Inr data"
    and "from_dict env (columns data) = Inr dataset"
    and "evaluate env dataset metrics False = Inr results"
    and "to_dict env results = Inr results_dict"
    and "write_fault fs output_file = Some e
         \<or> (write_fault fs output_file = None \<and> snd (json_dump env results_dict) = Some e)"
    and "write_fault fs2 output_file = None"
  shows "fst (snd (save_results env fs results output_file)) = Inl e
       \<and> fst (snd (main env fs)) = Inl e
       \<and> fst (main env fs) =
           [Print Banner, Print (Loading input_file), Print Preparing,
            Call_from_dict (columns data), Print (Prepared (len dataset)), Print Running,
            Call_evaluate dataset metrics False]
           @ fst (save_results env fs results output_file)
       \<and> files (snd (snd (save_results env fs2 results output_file))) output_file =
           Some (fst (json_dump env results_dict))"
proof -
  obtain t4 fs' where s: "save_results env fs results output_file = (t4, Inl e, fs')"
  proof (cases "write_fault fs output_file")
    case None
    with assms(6) have ex: "snd (json_dump env results_dict) = Some e" by simp
    then obtain out where "json_dump env results_dict = (out, Some e)"
      by (cases "json_dump env results_dict") auto
    from save_results_dump [OF assms(5) None this] that show ?thesis by simp
  next
    case (Some e')
    with assms(6) have "write_fault fs output_file = Some e" by auto
    from save_results_open_fails [OF assms(5) this] that show ?thesis by simp
  qed
  have m: "main env fs =
           ([Print Banner, Print (Loading input_file), Print Preparing,
             Call_from_dict (columns data), Print (Prepared (len dataset)), Print Running,
             Call_evaluate dataset metrics False] @ t4, Inl e, fs')"
    by (simp add: main_def load_present [OF assms(1,2)] prepare_built [OF assms(3)]
          run_returned [OF assms(4)] s)
  obtain out ex where j: "json_dump env results_dict = (out, ex)"
    by (cases "json_dump env results_dict") auto
  have "files (snd (snd (save_results env fs2 results output_file))) output_file = Some out"
    unfolding save_results_dump [OF assms(5,7) j] by simp
  with s m j show ?thesis by simp
qed

theorem write_failure_witness:
  "fst (snd (main (example_env example_data (Inr (columns example_data)) scores_all) readonly_fs))
     = Inl (PermissionError output_file)
   \<and> fst (main (example_env example_data (Inr (columns example_data)) scores_all) readonly_fs) =
       [Print Banner, Print (Loading input_file), Print Preparing,
        Call_from_dict (columns example_data), Print (Prepared 2), Print Running,
        Call_evaluate (columns example_data) metrics False, Print (Saving output_file)]
   \<and> files (snd (snd (save_results
                          (example_env example_data (Inr (columns example_data)) scores_all)
                          example_fs example_results output_file))) output_file
       = Some ''report''"
proof -
  let ?env = "example_env example_data (Inr (columns example_data)) scores_all"
  have j: "json_load ?env ''data'' = Inr example_data"
    by (rule example_json_load)
  have b: "from_dict ?env (columns example_data) = Inr (columns example_data)"
    by (rule example_from_dict)
  have e: "evaluate ?env (columns example_data) metrics False = Inr example_results"
    by (simp add: example_evaluate scores_all_metrics)
  have d: "to_dict ?env example_results = Inr example_results"
    by (rule example_to_dict)
  have s: "save_results ?env readonly_fs example_results output_file
           = ([Print (Saving output_file)], Inl (PermissionError output_file), readonly_fs)"
    by (rule save_results_open_fails [OF d readonly_fs_fault])
  have f: "write_fault readonly_fs output_file = Some (PermissionError output_file)
         \<or> (write_fault readonly_fs output_file = None
            \<and> snd (json_dump ?env example_results) = Some (PermissionError output_file))"
    by (simp add: readonly_fs_fault)
  show ?thesis
    using write_failure_propagates [OF readonly_fs_input j b e d f example_fs_no_fault]
    by (simp add: example_len s example_json_dump)
qed

subsection \<open>A missing input file\<close>

text \<open>
  C9. When the input file does not exist, \<open>load_evaluation_data\<close> returns \<open>None\<close> instead
  of raising, and \<open>main\<close> returns after the usage help: the events of the run are four
  console lines, so there is no call to the table library, no call to the evaluation and
  no write, and the file system is unchanged.
\<close>

theorem missing_input_file_stops_run:
  assumes "files fs input_file = None"
  shows "load_evaluation_data env fs input_file =
           ([Print (Loading input_file), Print (FileNotFoundMsg input_file)], Inr None)
       \<and> main env fs =
           ([Print Banner, Print (Loading input_file), Print (FileNotFoundMsg input_file),
             Print UsageHelp], Inr (), fs)"
  by (simp add: main_def load_absent [OF assms])

theorem missing_input_file_witness:
  "files empty_fs input_file = None
   \<and> main (example_env example_data (Inr (columns example_data)) scores_all) empty_fs =
       ([Print Banner, Print (Loading input_file), Print (FileNotFoundMsg input_file),
         Print UsageHelp], Inr (), empty_fs)"
proof -
  have h: "files empty_fs input_file = None"
    by (simp add: empty_fs_def)
  show ?thesis
    using h missing_input_file_stops_run
              [OF h, of "example_env example_data (Inr (columns example_data)) scores_all"]
    by simp
qed

subsection \<open>An evaluation that raises\<close>

text \<open>
  C10. When the call of the evaluation library raises, although it was asked not to
  (\<open>raise_exceptions=False\<close>), \<open>run_evaluation\<close> catches the exception, prints it and
  returns \<open>None\<close>; \<open>main\<close> then returns: nothing is saved (no write event, the file
  system is unchanged) and no summary is printed.
\<close>

theorem evaluate_raising_ends_run_without_report:
  assumes "files fs input_file = Some body"
    and "json_load env body = Inr data"
    and "from_dict env (columns data) = Inr dataset"
    and "evaluate env dataset metrics False = Inl e"
  shows "run_evaluation env dataset =
           ([Print Running, Call_evaluate dataset metrics False, Print (EvalError e)], None)
       \<and> main env fs =
           ([Print Banner, Print (Loading input_file), Print Preparing,
             Call_from_dict (columns data), Print (Prepared (len dataset)), Print Running,
             Call_evaluate dataset metrics False, Print (EvalError e)],
            Inr (), fs)"
  by (simp add: main_def load_present [OF assms(1,2)] prepare_built [OF assms(3)]
        run_raised [OF assms(4)])

theorem evaluate_raising_witness:
  "main (example_env example_data (Inr (columns example_data)) (raises (RuntimeError ''backend'')))
     example_fs =
     ([Print Banner, Print (Loading input_file), Print Preparing,
       Call_from_dict (columns example_data), Print (Prepared 2), Print Running,
       Call_evaluate (columns example_data) metrics False,
       Print (EvalError (RuntimeError ''backend''))],
      Inr (), example_fs)"
proof -
  let ?env = "example_env example_data (Inr (columns example_data))
                (raises (RuntimeError ''backend''))"
  have j: "json_load ?env ''data'' = Inr example_data"
    by (rule example_json_load)
  have b: "from_dict ?env (columns example_data) = Inr (columns example_data)"
    by (rule example_from_dict)
  have e: "evaluate ?env (columns example_data) metrics False = Inl (RuntimeError ''backend'')"
    by (simp add: example_evaluate raises_def)
  show ?thesis
    using evaluate_raising_ends_run_without_report [OF example_fs_input j b e]
    by (simp add: example_len)
qed

end
